theory Spec2Isabelle
  imports Main "HOL-Library.AList"
begin

section \<open>The Python objects the runner handles\<close>

text \<open>
  \<^verbatim>\<open>runner.py\<close> has two functions, \<^verbatim>\<open>exec_code\<close> and \<^verbatim>\<open>main\<close>. Both are glue around the
  Python library: \<^verbatim>\<open>json.loads\<close>, \<^verbatim>\<open>ast.parse\<close>, \<^verbatim>\<open>exec\<close>, \<^verbatim>\<open>eval\<close>, \<^verbatim>\<open>print\<close> and
  \<^verbatim>\<open>traceback.format_exception_only\<close>. The two text-level functions (\<^verbatim>\<open>json.loads\<close> and
  \<^verbatim>\<open>ast.parse\<close>) are parameters of the model; execution and evaluation are given for a
  fragment of Python by an interpreter over syntax trees. A run that leaves the fragment
  has the outcome \<open>Beyond\<close>, about which nothing is stated.
\<close>

subsection \<open>Exceptions\<close>

datatype exn_class =
    BaseException | SystemExit | KeyboardInterrupt | GeneratorExit
  | Exception | ZeroDivisionError | TypeError | ValueError | IndexError
  | RuntimeError | RecursionError | SyntaxError | IndentationError | TabError
  | JSONDecodeError

text \<open>\<^verbatim>\<open>isinstance(exc, Exception)\<close>: the classes that \<^verbatim>\<open>except Exception\<close> catches.\<close>

fun is_Exception :: "exn_class \<Rightarrow> bool" where
  "is_Exception BaseException = False"
| "is_Exception SystemExit = False"
| "is_Exception KeyboardInterrupt = False"
| "is_Exception GeneratorExit = False"
| "is_Exception _ = True"

text \<open>The name a traceback prints: the qualified name, without the module for a builtin.\<close>

fun class_name :: "exn_class \<Rightarrow> string" where
  "class_name BaseException = ''BaseException''"
| "class_name SystemExit = ''SystemExit''"
| "class_name KeyboardInterrupt = ''KeyboardInterrupt''"
| "class_name GeneratorExit = ''GeneratorExit''"
| "class_name Exception = ''Exception''"
| "class_name ZeroDivisionError = ''ZeroDivisionError''"
| "class_name TypeError = ''TypeError''"
| "class_name ValueError = ''ValueError''"
| "class_name IndexError = ''IndexError''"
| "class_name RuntimeError = ''RuntimeError''"
| "class_name RecursionError = ''RecursionError''"
| "class_name SyntaxError = ''SyntaxError''"
| "class_name IndentationError = ''IndentationError''"
| "class_name TabError = ''TabError''"
| "class_name JSONDecodeError = ''json.decoder.JSONDecodeError''"

text \<open>\<^verbatim>\<open>issubclass(c, SyntaxError)\<close>\<close>

fun syntax_error_class :: "exn_class \<Rightarrow> bool" where
  "syntax_error_class SyntaxError = True"
| "syntax_error_class IndentationError = True"
| "syntax_error_class TabError = True"
| "syntax_error_class _ = False"

text \<open>
  An exception object: its class; its message, which is \<^verbatim>\<open>str(exc)\<close> and for a syntax error
  the attribute \<^verbatim>\<open>msg\<close> (empty when there is none); the lines that locate a syntax error
  (file, source line, caret; empty for every other exception); and \<^verbatim>\<open>__cause__\<close>.
\<close>

datatype exn =
  Exn (exn_class: exn_class) (message: string) (location: "string list") (cause: "exn option")

abbreviation newline :: char where
  "newline \<equiv> CHR 0x0A"

abbreviation apostrophe :: char where
  "apostrophe \<equiv> CHR 0x27"

text \<open>
  The last line \<^verbatim>\<open>format_exception_only\<close> gives: \<^verbatim>\<open>Kind: message\<close>, or \<^verbatim>\<open>Kind\<close> alone when
  the message is empty; a syntax error without a message has
  \<^verbatim>\<open>Kind: <no detail available>\<close>.
\<close>

definition exception_line :: "exn \<Rightarrow> string" where
  "exception_line e =
     class_name (exn_class e) @
     (if syntax_error_class (exn_class e)
      then '': '' @ (if message e = [] then ''<no detail available>'' else message e)
      else if message e = [] then [] else '': '' @ message e) @
     [newline]"

text \<open>
  \<^verbatim>\<open>traceback.format_exception_only(type(exc), exc)\<close>: a list of strings, each ending in a
  newline; one string, preceded for a syntax error by the lines that locate it. The
  cause of the exception is not part of it.
\<close>

definition format_exception_only :: "exn \<Rightarrow> string list" where
  "format_exception_only e = location e @ [exception_line e]"

text \<open>\<^verbatim>\<open>sep.join(xs)\<close>\<close>

fun str_join :: "string \<Rightarrow> string list \<Rightarrow> string" where
  "str_join sep [] = []"
| "str_join sep [x] = x"
| "str_join sep (x # y # ys) = x @ sep @ str_join sep (y # ys)"

subsection \<open>Values, syntax trees, the namespace\<close>

text \<open>
  \<open>ExnV c m\<close> is the exception a call of the class \<open>c\<close> makes: \<^verbatim>\<open>c()\<close> when \<open>m\<close> is empty,
  and otherwise \<^verbatim>\<open>c(a)\<close> for the one argument \<open>a\<close> whose text is \<open>m\<close>.
\<close>

datatype builtin = Print | Range | IntClass

datatype pyvalue =
    NoneV | IntV int | StrV string | RangeV int
  | BuiltinV builtin | ClassV exn_class | ExnV exn_class string

datatype binop = Add | Sub | Mult | Div

datatype expr =
    Constant pyvalue
  | Name string
  | BinOp expr binop expr
  | Call expr "expr list"

text \<open>
  The statement kinds of \<^verbatim>\<open>ast\<close> that the fragment has. Assignment targets are names.
  \<open>Assign\<close> has a list of targets (\<^verbatim>\<open>a = b = 5\<close> has two), \<open>AnnAssign\<close> an annotation and
  an optional value, \<open>Raise\<close> an optional exception with an optional cause.
\<close>

datatype stmt =
    Expr expr
  | Assign "string list" expr
  | AnnAssign string expr "expr option"
  | AugAssign string binop expr
  | For string expr "stmt list"
  | Pass
  | Raise "(expr \<times> expr option) option"

text \<open>
  What a run can change: the \<^verbatim>\<open>globals\<close> dictionary (insertion-ordered, as Python's) and
  the text written to standard output so far.
\<close>

record world =
  globals :: "(string \<times> pyvalue) list"
  out :: string

datatype 'a outcome = Done 'a world | Raised exn world | Beyond

definition bind_name :: "string \<Rightarrow> pyvalue \<Rightarrow> world \<Rightarrow> world" where
  "bind_name n v w = w\<lparr>globals := AList.update n v (globals w)\<rparr>"

definition builtins :: "string \<Rightarrow> pyvalue option" where
  "builtins n =
     (if n = ''print'' then Some (BuiltinV Print)
      else if n = ''range'' then Some (BuiltinV Range)
      else if n = ''int'' then Some (BuiltinV IntClass)
      else map_option ClassV (map_of
        [(''BaseException'', BaseException), (''SystemExit'', SystemExit),
         (''KeyboardInterrupt'', KeyboardInterrupt), (''GeneratorExit'', GeneratorExit),
         (''Exception'', Exception), (''ZeroDivisionError'', ZeroDivisionError),
         (''TypeError'', TypeError), (''ValueError'', ValueError),
         (''IndexError'', IndexError), (''RuntimeError'', RuntimeError),
         (''RecursionError'', RecursionError), (''SyntaxError'', SyntaxError),
         (''IndentationError'', IndentationError), (''TabError'', TabError)] n))"

text \<open>Name lookup: the globals, then the builtins.\<close>

definition lookup :: "string \<Rightarrow> world \<Rightarrow> pyvalue option" where
  "lookup n w = (case map_of (globals w) n of Some v \<Rightarrow> Some v | None \<Rightarrow> builtins n)"

text \<open>
  Two names of the globals belong to the interpreter: \<^verbatim>\<open>__builtins__\<close>, which \<^verbatim>\<open>exec\<close> puts
  there, and \<^verbatim>\<open>__annotations__\<close>, the dictionary that annotated assignments fill. The
  fragment neither reads nor binds them, and has no world in which they are bound.
\<close>

definition reserved :: "string \<Rightarrow> bool" where
  "reserved n = (n = ''__builtins__'' \<or> n = ''__annotations__'')"

definition reserved_bound :: "world \<Rightarrow> bool" where
  "reserved_bound w = list_ex reserved (map fst (globals w))"

subsection \<open>\<^verbatim>\<open>str\<close> and \<^verbatim>\<open>print\<close>\<close>

fun digits10 :: "nat \<Rightarrow> string" where
  "digits10 n =
     (if n < 10 then [''0123456789'' ! n]
      else digits10 (n div 10) @ [''0123456789'' ! (n mod 10)])"

declare digits10.simps [simp del]

definition str_int :: "int \<Rightarrow> string" where
  "str_int i = (if i < 0 then CHR ''-'' # digits10 (nat (- i)) else digits10 (nat i))"

fun str_of :: "pyvalue \<Rightarrow> string" where
  "str_of NoneV = ''None''"
| "str_of (IntV i) = str_int i"
| "str_of (StrV s) = s"
| "str_of (RangeV n) = ''range(0, '' @ str_int n @ '')''"
| "str_of (BuiltinV Print) = ''<built-in function print>''"
| "str_of (BuiltinV Range) = ''<class '' @ [apostrophe] @ ''range'' @ [apostrophe] @ ''>''"
| "str_of (BuiltinV IntClass) = ''<class '' @ [apostrophe] @ ''int'' @ [apostrophe] @ ''>''"
| "str_of (ClassV c) = ''<class '' @ [apostrophe] @ class_name c @ [apostrophe] @ ''>''"
| "str_of (ExnV c m) = (if syntax_error_class c \<and> m = [] then ''None'' else m)"

text \<open>
  The interpreter converts an integer to text only when it has at most 4300 decimal
  digits (its default limit). The fragment has no larger integer: an expression whose
  value would be one is \<open>Beyond\<close>. (A literal can be that long only when written in
  binary, octal or hexadecimal; the trees considered here have none.)
\<close>

definition within_digits :: "int \<Rightarrow> bool" where
  "within_digits i = (length (digits10 (nat \<bar>i\<bar>)) \<le> 4300)"

fun representable :: "pyvalue \<Rightarrow> bool" where
  "representable (IntV i) = within_digits i"
| "representable (RangeV n) = within_digits n"
| "representable _ = True"

definition checked :: "pyvalue \<Rightarrow> world \<Rightarrow> pyvalue outcome" where
  "checked v w = (if representable v then Done v w else Beyond)"

text \<open>\<^verbatim>\<open>print(*vs)\<close>: the texts separated by a space, then a newline, on standard output.\<close>

definition print :: "pyvalue list \<Rightarrow> world \<Rightarrow> world" where
  "print vs w = w\<lparr>out := out w @ str_join '' '' (map str_of vs) @ [newline]\<rparr>"

subsection \<open>Evaluating expressions (\<^verbatim>\<open>eval\<close>)\<close>

text \<open>
  Integer arithmetic is exact. \<^verbatim>\<open>a / b\<close> raises \<^verbatim>\<open>ZeroDivisionError\<close> when \<open>b\<close> is zero
  and is a float otherwise, which the fragment does not have.
\<close>

definition apply_binop :: "binop \<Rightarrow> pyvalue \<Rightarrow> pyvalue \<Rightarrow> world \<Rightarrow> pyvalue outcome" where
  "apply_binop op x y w =
     (case (x, y) of
        (IntV a, IntV b) \<Rightarrow>
          (case op of
             Add \<Rightarrow> checked (IntV (a + b)) w
           | Sub \<Rightarrow> checked (IntV (a - b)) w
           | Mult \<Rightarrow> checked (IntV (a * b)) w
           | Div \<Rightarrow>
               if b = 0 then Raised (Exn ZeroDivisionError ''division by zero'' [] None) w
               else Beyond)
      | (StrV a, StrV b) \<Rightarrow> (case op of Add \<Rightarrow> Done (StrV (a @ b)) w | _ \<Rightarrow> Beyond)
      | _ \<Rightarrow> Beyond)"

text \<open>
  Calling a value: \<^verbatim>\<open>print\<close> writes and gives \<^verbatim>\<open>None\<close>; \<^verbatim>\<open>range(n)\<close>; an exception class with
  no argument or with one string or integer makes an exception whose \<^verbatim>\<open>str\<close> is that argument.
  Left out: \<^verbatim>\<open>JSONDecodeError\<close>, whose constructor wants three arguments, and the syntax
  errors made from an empty string or an integer, whose \<^verbatim>\<open>str\<close> and \<^verbatim>\<open>msg\<close> differ.
\<close>

definition instantiate :: "exn_class \<Rightarrow> pyvalue list \<Rightarrow> world \<Rightarrow> pyvalue outcome" where
  "instantiate c vs w =
     (if c = JSONDecodeError then Beyond
      else case vs of
        [] \<Rightarrow> Done (ExnV c []) w
      | [StrV s] \<Rightarrow> if syntax_error_class c \<and> s = [] then Beyond else Done (ExnV c s) w
      | [IntV i] \<Rightarrow> if syntax_error_class c then Beyond else Done (ExnV c (str_int i)) w
      | _ \<Rightarrow> Beyond)"

fun call :: "pyvalue \<Rightarrow> pyvalue list \<Rightarrow> world \<Rightarrow> pyvalue outcome" where
  "call (BuiltinV Print) vs w = Done NoneV (print vs w)"
| "call (BuiltinV Range) [IntV n] w = checked (RangeV n) w"
| "call (ClassV c) vs w = instantiate c vs w"
| "call _ _ w = Beyond"

fun eval :: "expr \<Rightarrow> world \<Rightarrow> pyvalue outcome"
  and eval_args :: "expr list \<Rightarrow> world \<Rightarrow> pyvalue list outcome" where
  "eval (Constant v) w =
     (case v of
        NoneV \<Rightarrow> Done v w
      | IntV i \<Rightarrow> checked v w
      | StrV s \<Rightarrow> Done v w
      | _ \<Rightarrow> Beyond)"
| "eval (Name n) w =
     (if reserved n \<or> reserved_bound w then Beyond
      else case lookup n w of Some v \<Rightarrow> checked v w | None \<Rightarrow> Beyond)"
| "eval (BinOp l op r) w =
     (case eval l w of
        Done a w1 \<Rightarrow>
          (case eval r w1 of
             Done b w2 \<Rightarrow> apply_binop op a b w2
           | Raised e w2 \<Rightarrow> Raised e w2
           | Beyond \<Rightarrow> Beyond)
      | Raised e w1 \<Rightarrow> Raised e w1
      | Beyond \<Rightarrow> Beyond)"
| "eval (Call f args) w =
     (case eval f w of
        Done fv w1 \<Rightarrow>
          (case eval_args args w1 of
             Done vs w2 \<Rightarrow> call fv vs w2
           | Raised e w2 \<Rightarrow> Raised e w2
           | Beyond \<Rightarrow> Beyond)
      | Raised e w1 \<Rightarrow> Raised e w1
      | Beyond \<Rightarrow> Beyond)"
| "eval_args [] w = Done [] w"
| "eval_args (a # as) w =
     (case eval a w of
        Done v w1 \<Rightarrow>
          (case eval_args as w1 of
             Done vs w2 \<Rightarrow> Done (v # vs) w2
           | Raised e w2 \<Rightarrow> Raised e w2
           | Beyond \<Rightarrow> Beyond)
      | Raised e w1 \<Rightarrow> Raised e w1
      | Beyond \<Rightarrow> Beyond)"

subsection \<open>Executing statements (\<^verbatim>\<open>exec\<close>)\<close>

text \<open>The exception a \<^verbatim>\<open>raise\<close> statement raises for a value: an instance, or a class called with no argument.\<close>

fun as_exception :: "pyvalue \<Rightarrow> exn option" where
  "as_exception (ExnV c m) = Some (Exn c m [] None)"
| "as_exception (ClassV c) = Some (Exn c [] [] None)"
| "as_exception _ = None"

fun with_cause :: "exn \<Rightarrow> exn option \<Rightarrow> exn" where
  "with_cause (Exn c m l _) x = Exn c m l x"

text \<open>
  \<^verbatim>\<open>raise exc from c\<close>: \<open>c\<close> is an exception, an exception class or \<^verbatim>\<open>None\<close>.
\<close>

definition raise_from :: "pyvalue \<Rightarrow> pyvalue \<Rightarrow> world \<Rightarrow> unit outcome" where
  "raise_from v c w =
     (if v = ClassV JSONDecodeError \<or> c = ClassV JSONDecodeError then Beyond
      else case as_exception v of
        None \<Rightarrow> Raised (Exn TypeError ''exceptions must derive from BaseException'' [] None) w
      | Some e \<Rightarrow>
          (if c = NoneV then Raised (with_cause e None) w
           else case as_exception c of
             None \<Rightarrow>
               Raised (Exn TypeError ''exception causes must derive from BaseException'' [] None) w
           | Some x \<Rightarrow> Raised (with_cause e (Some x)) w))"

text \<open>The names a statement binds itself (those of a loop body are met when the body runs).\<close>

fun binds :: "stmt \<Rightarrow> string list" where
  "binds (Assign targets e) = targets"
| "binds (AnnAssign t ann e) = [t]"
| "binds (AugAssign t op e) = [t]"
| "binds (For t iter body) = [t]"
| "binds _ = []"

text \<open>
  An annotated assignment of a name at module level binds the value first and then
  evaluates the annotation, which goes into \<^verbatim>\<open>__annotations__\<close> (as CPython up to 3.13
  does); without a value only the annotation is evaluated. A \<^verbatim>\<open>for\<close> loop runs over a
  range, binding the loop variable in the globals; a statement that raises ends the run
  with what was written so far.
\<close>

fun exec_stmt :: "stmt \<Rightarrow> world \<Rightarrow> unit outcome"
  and exec :: "stmt list \<Rightarrow> world \<Rightarrow> unit outcome"
  and exec_for :: "string \<Rightarrow> stmt list \<Rightarrow> int list \<Rightarrow> world \<Rightarrow> unit outcome" where
  "exec_stmt (Expr e) w =
     (case eval e w of Done _ w1 \<Rightarrow> Done () w1 | Raised x w1 \<Rightarrow> Raised x w1 | Beyond \<Rightarrow> Beyond)"
| "exec_stmt (Assign targets e) w =
     (case eval e w of
        Done v w1 \<Rightarrow> Done () (fold (\<lambda>t. bind_name t v) targets w1)
      | Raised x w1 \<Rightarrow> Raised x w1
      | Beyond \<Rightarrow> Beyond)"
| "exec_stmt (AnnAssign t ann None) w =
     (case eval ann w of
        Done _ w1 \<Rightarrow> Done () w1
      | Raised x w1 \<Rightarrow> Raised x w1
      | Beyond \<Rightarrow> Beyond)"
| "exec_stmt (AnnAssign t ann (Some e)) w =
     (case eval e w of
        Done v w1 \<Rightarrow>
          (case eval ann (bind_name t v w1) of
             Done _ w2 \<Rightarrow> Done () w2
           | Raised x w2 \<Rightarrow> Raised x w2
           | Beyond \<Rightarrow> Beyond)
      | Raised x w1 \<Rightarrow> Raised x w1
      | Beyond \<Rightarrow> Beyond)"
| "exec_stmt (AugAssign t op e) w =
     (case eval (Name t) w of
        Done a w1 \<Rightarrow>
          (case eval e w1 of
             Done b w2 \<Rightarrow>
               (case apply_binop op a b w2 of
                  Done v w3 \<Rightarrow> Done () (bind_name t v w3)
                | Raised x w3 \<Rightarrow> Raised x w3
                | Beyond \<Rightarrow> Beyond)
           | Raised x w2 \<Rightarrow> Raised x w2
           | Beyond \<Rightarrow> Beyond)
      | Raised x w1 \<Rightarrow> Raised x w1
      | Beyond \<Rightarrow> Beyond)"
| "exec_stmt (For t iter body) w =
     (case eval iter w of
        Done (RangeV n) w1 \<Rightarrow> exec_for t body (map int [0 ..< nat n]) w1
      | Done _ w1 \<Rightarrow> Beyond
      | Raised x w1 \<Rightarrow> Raised x w1
      | Beyond \<Rightarrow> Beyond)"
| "exec_stmt Pass w = Done () w"
| "exec_stmt (Raise None) w =
     Raised (Exn RuntimeError ''No active exception to reraise'' [] None) w"
| "exec_stmt (Raise (Some (e, None))) w =
     (case eval e w of
        Done v w1 \<Rightarrow> raise_from v NoneV w1
      | Raised x w1 \<Rightarrow> Raised x w1
      | Beyond \<Rightarrow> Beyond)"
| "exec_stmt (Raise (Some (e, Some c))) w =
     (case eval e w of
        Done v w1 \<Rightarrow>
          (case eval c w1 of
             Done cv w2 \<Rightarrow> raise_from v cv w2
           | Raised x w2 \<Rightarrow> Raised x w2
           | Beyond \<Rightarrow> Beyond)
      | Raised x w1 \<Rightarrow> Raised x w1
      | Beyond \<Rightarrow> Beyond)"
| "exec [] w = Done () w"
| "exec (s # ss) w =
     (if list_ex reserved (binds s) \<or> reserved_bound w then Beyond
      else case exec_stmt s w of
        Done _ w1 \<Rightarrow> exec ss w1
      | Raised x w1 \<Rightarrow> Raised x w1
      | Beyond \<Rightarrow> Beyond)"
| "exec_for t body [] w = Done () w"
| "exec_for t body (i # is) w =
     (case exec body (bind_name t (IntV i) w) of
        Done _ w1 \<Rightarrow> exec_for t body is w1
      | Raised x w1 \<Rightarrow> Raised x w1
      | Beyond \<Rightarrow> Beyond)"

section \<open>The runner\<close>

subsection \<open>The library functions the runner is given\<close>

text \<open>What \<^verbatim>\<open>json.loads\<close> returns: a float is kept as mantissa and binary exponent.\<close>

datatype json =
    JNull | JBool bool | JInt int | JFloat int int | JStr string
  | JArr "json list" | JObj "(string \<times> json) list"

text \<open>
  \<^verbatim>\<open>json.loads\<close> on a string, and \<^verbatim>\<open>ast.parse\<close> on source text giving the body of the module;
  \<open>Inl\<close> is the exception raised.
\<close>

record pylib =
  json_loads :: "string \<Rightarrow> exn + json"
  ast_parse :: "string \<Rightarrow> exn + stmt list"

text \<open>
  \<^verbatim>\<open>ast.parse(code)\<close> on the decoded object, which need not be a string: any other object
  JSON can give is refused by \<^verbatim>\<open>compile\<close> with a \<^verbatim>\<open>TypeError\<close>.
\<close>

definition ast_parse_object :: "pylib \<Rightarrow> json \<Rightarrow> exn + stmt list" where
  "ast_parse_object lib code =
     (case code of
        JStr src \<Rightarrow> ast_parse lib src
      | _ \<Rightarrow> Inl (Exn TypeError ''compile() arg 1 must be a string, bytes or AST object'' [] None))"

text \<open>
  \<^verbatim>\<open>str.strip()\<close>: a string is a list of code points, here those below 256, of which
  Python counts these as whitespace.
\<close>

definition isspace :: "char \<Rightarrow> bool" where
  "isspace c = (of_char c \<in> {9, 10, 11, 12, 13, 28, 29, 30, 31, 32, 133, 160 :: nat})"

definition str_strip :: "string \<Rightarrow> string" where
  "str_strip s = rev (dropWhile isspace (rev (dropWhile isspace s)))"

subsection \<open>\<^verbatim>\<open>exec_code\<close>\<close>

text \<open>
  Lines 9 to 16: the body to execute and \<^verbatim>\<open>last_expression\<close>. Only the \<^verbatim>\<open>ast.Expr\<close> branch
  pops the last statement; the three assignment branches read the target and leave the body
  as it is. \<^verbatim>\<open>last_expression\<close> is the unparsed text of an expression in the source and the
  expression itself here; \<^verbatim>\<open>targets[0]\<close> of an empty list raises \<^verbatim>\<open>IndexError\<close>.
\<close>

definition split_program :: "stmt list \<Rightarrow> exn + (stmt list \<times> expr option)" where
  "split_program body =
     (if body = [] then Inr (body, None)
      else case last body of
        Expr e \<Rightarrow> Inr (butlast body, Some e)
      | Assign targets v \<Rightarrow>
          (case targets of
             [] \<Rightarrow> Inl (Exn IndexError ''list index out of range'' [] None)
           | t # _ \<Rightarrow> Inr (body, Some (Name t)))
      | AnnAssign t ann v \<Rightarrow> Inr (body, Some (Name t))
      | AugAssign t op v \<Rightarrow> Inr (body, Some (Name t))
      | _ \<Rightarrow> Inr (body, None))"

text \<open>
  Lines 18 to 21: evaluate \<^verbatim>\<open>last_expression\<close> in the globals the body left and print the
  value unless it is \<^verbatim>\<open>None\<close>.
\<close>

definition echo :: "expr option \<Rightarrow> world \<Rightarrow> unit outcome" where
  "echo last_expression w =
     (case last_expression of
        None \<Rightarrow> Done () w
      | Some e \<Rightarrow>
          (case eval e w of
             Done v w1 \<Rightarrow> if v \<noteq> NoneV then Done () (print [v] w1) else Done () w1
           | Raised x w1 \<Rightarrow> Raised x w1
           | Beyond \<Rightarrow> Beyond))"

text \<open>
  Lines 17 to 21 together: \<^verbatim>\<open>exec(ast.unparse(a), globals)\<close> runs the statements of the body
  that is left, then the echo; an exception of the body ends the call before the echo.
\<close>

definition exec_then_echo :: "stmt list \<Rightarrow> expr option \<Rightarrow> world \<Rightarrow> unit outcome" where
  "exec_then_echo body last_expression w =
     (case exec body w of
        Done _ w1 \<Rightarrow> echo last_expression w1
      | Raised x w1 \<Rightarrow> Raised x w1
      | Beyond \<Rightarrow> Beyond)"

text \<open>\<^verbatim>\<open>exec_code(code, globals)\<close>; the world carries \<^verbatim>\<open>globals\<close>.\<close>

definition exec_code :: "pylib \<Rightarrow> json \<Rightarrow> world \<Rightarrow> unit outcome" where
  "exec_code lib code w =
     (case ast_parse_object lib code of
        Inl x \<Rightarrow> Raised x w
      | Inr body \<Rightarrow>
          (case split_program body of
             Inl x \<Rightarrow> Raised x w
           | Inr (body', last_expression) \<Rightarrow> exec_then_echo body' last_expression w))"

subsection \<open>\<^verbatim>\<open>main\<close>\<close>

text \<open>
  One call of \<^verbatim>\<open>main\<close>: what it returns (\<open>Inr n\<close>, the exit status handed to \<^verbatim>\<open>sys.exit\<close>) or
  the exception that leaves it uncaught (\<open>Inl\<close>), and the text written to standard output
  and to standard error.
\<close>

record invocation =
  returned :: "exn + int"
  stdout :: string
  stderr :: string

text \<open>The namespace \<^verbatim>\<open>{}\<close> that \<^verbatim>\<open>main\<close> passes, with nothing written yet.\<close>

definition fresh :: world where
  "fresh = \<lparr>globals = [], out = []\<rparr>"

text \<open>
  \<^verbatim>\<open>main(raw_code)\<close>. \<^verbatim>\<open>except json.decoder.JSONDecodeError\<close> catches that class only, and
  \<^verbatim>\<open>except Exception\<close> the classes under \<^verbatim>\<open>Exception\<close>: any other exception leaves \<^verbatim>\<open>main\<close>.
  \<^verbatim>\<open>print\<close> ends the two fixed messages with a newline; the formatted exception is written
  with \<^verbatim>\<open>end=""\<close>, its lines joined by a newline.
\<close>

definition main :: "pylib \<Rightarrow> string option \<Rightarrow> invocation option" where
  "main lib raw_code =
     (case (case raw_code of
              None \<Rightarrow> None
            | Some s \<Rightarrow> if str_strip s = [] then None else Some s) of
        None \<Rightarrow>
          Some \<lparr>returned = Inr 1, stdout = [],
                stderr = ''Error: no code to execute'' @ [newline]\<rparr>
      | Some s \<Rightarrow>
          (case json_loads lib s of
             Inl x \<Rightarrow>
               if exn_class x = JSONDecodeError
               then Some \<lparr>returned = Inr 1, stdout = [],
                          stderr = ''Error: JSON decode failed'' @ [newline]\<rparr>
               else Some \<lparr>returned = Inl x, stdout = [], stderr = []\<rparr>
           | Inr code \<Rightarrow>
               (case exec_code lib code fresh of
                  Done _ w \<Rightarrow> Some \<lparr>returned = Inr 0, stdout = out w, stderr = []\<rparr>
                | Raised exc w \<Rightarrow>
                    if is_Exception (exn_class exc)
                    then Some \<lparr>returned = Inr 1, stdout = out w,
                               stderr = str_join [newline] (format_exception_only exc)\<rparr>
                    else Some \<lparr>returned = Inl exc, stdout = out w, stderr = []\<rparr>
                | Beyond \<Rightarrow> None)))"

subsection \<open>Statement kinds\<close>

text \<open>The kinds \<^verbatim>\<open>exec_code\<close> has no branch for: none of the four \<^verbatim>\<open>isinstance\<close> tests holds.\<close>

fun other_kind :: "stmt \<Rightarrow> bool" where
  "other_kind (Expr _) = False"
| "other_kind (Assign _ _) = False"
| "other_kind (AnnAssign _ _ _) = False"
| "other_kind (AugAssign _ _ _) = False"
| "other_kind _ = True"

text \<open>\<^verbatim>\<open>isinstance(code, str)\<close>\<close>

fun is_str :: "json \<Rightarrow> bool" where
  "is_str (JStr _) = True"
| "is_str _ = False"

section \<open>A sample of the library\<close>

text \<open>
  The sources used as examples, each with the body \<^verbatim>\<open>ast.parse\<close> gives for it, and the JSON
  text of a string that needs no escape. The sample library knows these texts only and
  raises on every other one; the real functions accept more.
\<close>

abbreviation dquote :: char where
  "dquote \<equiv> CHR 0x22"

definition json_literal :: "string \<Rightarrow> string" where
  "json_literal s = dquote # s @ [dquote]"

definition sample_programs :: "(string \<times> stmt list) list" where
  "sample_programs =
     [(''1 + 1'', [Expr (BinOp (Constant (IntV 1)) Add (Constant (IntV 1)))]),
      (''x = 5'', [Assign [''x''] (Constant (IntV 5))]),
      (''x: int = 5'', [AnnAssign ''x'' (Name ''int'') (Some (Constant (IntV 5)))]),
      (''for i in range(3): pass'',
         [For ''i'' (Call (Name ''range'') [Constant (IntV 3)]) [Pass]]),
      (''1/0'', [Expr (BinOp (Constant (IntV 1)) Div (Constant (IntV 0)))]),
      (''print(1)'', [Expr (Call (Name ''print'') [Constant (IntV 1)])]),
      (''x: print(1) = print(2)'',
         [AnnAssign ''x'' (Call (Name ''print'') [Constant (IntV 1)])
            (Some (Call (Name ''print'') [Constant (IntV 2)]))]),
      (''x = 5; x += 1'',
         [Assign [''x''] (Constant (IntV 5)), AugAssign ''x'' Add (Constant (IntV 1))]),
      (''print(1); 1/0'',
         [Expr (Call (Name ''print'') [Constant (IntV 1)]),
          Expr (BinOp (Constant (IntV 1)) Div (Constant (IntV 0)))]),
      (''raise ValueError(1) from TypeError(2)'',
         [Raise (Some (Call (Name ''ValueError'') [Constant (IntV 1)],
                       Some (Call (Name ''TypeError'') [Constant (IntV 2)])))]),
      (''raise SystemExit'', [Raise (Some (Name ''SystemExit'', None))]),
      (''raise SyntaxError'', [Raise (Some (Name ''SyntaxError'', None))])]"

text \<open>A source that does not parse, with the syntax error \<^verbatim>\<open>ast.parse\<close> raises for it.\<close>

definition sample_errors :: "(string \<times> exn) list" where
  "sample_errors =
     [(''1 +'',
       Exn SyntaxError ''invalid syntax''
         [''  File '' @ [dquote] @ ''<unknown>'' @ [dquote] @ '', line 1'' @ [newline],
          ''    1 +'' @ [newline],
          ''       ^'' @ [newline]]
         None)]"

definition sample_ast_parse :: "string \<Rightarrow> exn + stmt list" where
  "sample_ast_parse src =
     (case map_of sample_programs src of
        Some body \<Rightarrow> Inr body
      | None \<Rightarrow>
          (case map_of sample_errors src of
             Some x \<Rightarrow> Inl x
           | None \<Rightarrow> Inl (Exn SyntaxError ''invalid syntax'' [] None)))"

definition sample_json_loads :: "string \<Rightarrow> exn + json" where
  "sample_json_loads raw =
     (if raw = ''123'' then Inr (JInt 123)
      else case map_of (map (\<lambda>src. (json_literal src, JStr src))
                         (map fst sample_programs @ map fst sample_errors)) raw of
        Some code \<Rightarrow> Inr code
      | None \<Rightarrow> Inl (Exn JSONDecodeError ''Expecting value: line 1 column 1 (char 0)'' [] None))"

definition sample_lib :: pylib where
  "sample_lib = \<lparr>json_loads = sample_json_loads, ast_parse = sample_ast_parse\<rparr>"

section \<open>Properties of the runner\<close>

subsection \<open>Auxiliary facts\<close>

lemma str_strip_empty_iff: "str_strip s = [] \<longleftrightarrow> (\<forall>c \<in> set s. isspace c)"
proof
  assume "str_strip s = []"
  then have "dropWhile isspace (rev (dropWhile isspace s)) = []"
    by (simp add: str_strip_def)
  then have "\<forall>c \<in> set (dropWhile isspace s). isspace c"
    by (simp add: dropWhile_eq_Nil_conv)
  moreover have "dropWhile isspace s \<noteq> [] \<Longrightarrow> \<not> isspace (hd (dropWhile isspace s))"
    by (rule hd_dropWhile)
  ultimately have "dropWhile isspace s = []"
    by (cases "dropWhile isspace s") auto
  then show "\<forall>c \<in> set s. isspace c"
    by (simp add: dropWhile_eq_Nil_conv)
next
  assume "\<forall>c \<in> set s. isspace c"
  then show "str_strip s = []"
    by (auto simp: str_strip_def dest: set_dropWhileD)
qed

lemma json_literal_not_blank: "str_strip (json_literal s) \<noteq> []"
  by (simp add: str_strip_empty_iff json_literal_def isspace_def)

text \<open>Past the two guards, \<^verbatim>\<open>main\<close> is the \<^verbatim>\<open>try\<close> block around \<^verbatim>\<open>exec_code\<close>.\<close>

lemma main_decoded:
  assumes "str_strip raw \<noteq> []" and "json_loads lib raw = Inr code"
  shows "main lib (Some raw) =
     (case exec_code lib code fresh of
        Done _ w \<Rightarrow> Some \<lparr>returned = Inr 0, stdout = out w, stderr = []\<rparr>
      | Raised exc w \<Rightarrow>
          if is_Exception (exn_class exc)
          then Some \<lparr>returned = Inr 1, stdout = out w,
                     stderr = str_join [newline] (format_exception_only exc)\<rparr>
          else Some \<lparr>returned = Inl exc, stdout = out w, stderr = []\<rparr>
      | Beyond \<Rightarrow> None)"
  using assms by (simp add: main_def)



text \<open>Small integers are within the digit limit.\<close>

lemma within_digits_small: "\<bar>i\<bar> < 10 \<Longrightarrow> within_digits i"
proof -
  assume "\<bar>i\<bar> < 10"
  then have "nat \<bar>i\<bar> < 10"
    by linarith
  then show ?thesis
    by (simp add: within_digits_def digits10.simps [of "nat \<bar>i\<bar>"])
qed










text \<open>Past a successful parse, \<^verbatim>\<open>exec_code\<close> is the split, the body and the echo.\<close>

lemma exec_code_parsed:
  assumes "ast_parse_object lib code = Inr body"
  shows "exec_code lib code w =
     (case split_program body of
        Inl x \<Rightarrow> Raised x w
      | Inr (body', last_expression) \<Rightarrow> exec_then_echo body' last_expression w)"
  using assms by (simp add: exec_code_def)

lemma split_program_other:
  "body \<noteq> [] \<Longrightarrow> other_kind (last body) \<Longrightarrow> split_program body = Inr (body, None)"
  by (cases "last body") (simp_all add: split_program_def)

subsection \<open>Missing input and undecodable input\<close>

text \<open>
  C5. When the raw input is absent (\<^verbatim>\<open>None\<close>) or has whitespace only, \<^verbatim>\<open>main\<close> returns 1,
  standard error holds the line \<^verbatim>\<open>Error: no code to execute\<close> (ended by \<^verbatim>\<open>print\<close>'s newline)
  and nothing else is written. The result is the same for every library: nothing is
  decoded, parsed or executed.
\<close>

theorem missing_input_reported:
  "raw_code = None \<or> (\<exists>s. raw_code = Some s \<and> list_all isspace s) \<Longrightarrow>
   main lib raw_code =
     Some \<lparr>returned = Inr 1, stdout = [], stderr = ''Error: no code to execute'' @ [newline]\<rparr>"
  by (auto simp: main_def str_strip_empty_iff list_all_iff)

theorem missing_input_reported_witness:
  "list_all isspace [CHR '' '', CHR 0x09, newline] \<and>
   main sample_lib (Some [CHR '' '', CHR 0x09, newline]) =
     Some \<lparr>returned = Inr 1, stdout = [], stderr = ''Error: no code to execute'' @ [newline]\<rparr>"
proof -
  have h: "list_all isspace [CHR '' '', CHR 0x09, newline]"
    by (simp add: isspace_def)
  then show ?thesis
    using missing_input_reported [of "Some [CHR '' '', CHR 0x09, newline]" sample_lib] by blast
qed

text \<open>
  C6. When the raw input is not blank and \<^verbatim>\<open>json.loads\<close> raises \<^verbatim>\<open>JSONDecodeError\<close> on it,
  \<^verbatim>\<open>main\<close> returns 1 and standard error holds the line \<^verbatim>\<open>Error: JSON decode failed\<close>;
  nothing is parsed or executed, whatever the parser of the library is.
\<close>

theorem json_decode_failure_reported:
  "str_strip raw \<noteq> [] \<Longrightarrow> json_loads lib raw = Inl x \<Longrightarrow> exn_class x = JSONDecodeError \<Longrightarrow>
   main lib (Some raw) =
     Some \<lparr>returned = Inr 1, stdout = [], stderr = ''Error: JSON decode failed'' @ [newline]\<rparr>"
  by (simp add: main_def)

theorem json_decode_failure_reported_witness:
  "str_strip ''hello'' \<noteq> [] \<and>
   json_loads sample_lib ''hello'' =
     Inl (Exn JSONDecodeError ''Expecting value: line 1 column 1 (char 0)'' [] None) \<and>
   main sample_lib (Some ''hello'') =
     Some \<lparr>returned = Inr 1, stdout = [], stderr = ''Error: JSON decode failed'' @ [newline]\<rparr>"
proof -
  have a: "str_strip ''hello'' \<noteq> []"
    by (simp add: str_strip_empty_iff isspace_def)
  have b: "json_loads sample_lib ''hello'' =
      Inl (Exn JSONDecodeError ''Expecting value: line 1 column 1 (char 0)'' [] None)"
    by code_simp
  show ?thesis
    using a b json_decode_failure_reported [OF a b] by simp
qed

text \<open>
  C10. When the raw input is valid JSON for something that is not a string, the decode
  succeeds, so the fixed decode message is not written; \<^verbatim>\<open>ast.parse\<close> raises a
  \<^verbatim>\<open>TypeError\<close>, which \<^verbatim>\<open>main\<close> formats on standard error, and \<^verbatim>\<open>main\<close> returns 1.
\<close>

theorem non_string_json_reported_as_exception:
  assumes "str_strip raw \<noteq> []" and "json_loads lib raw = Inr code" and "\<not> is_str code"
  shows "main lib (Some raw) =
     Some \<lparr>returned = Inr 1, stdout = [],
           stderr = ''TypeError: compile() arg 1 must be a string, bytes or AST object''
             @ [newline]\<rparr>"
proof -
  have "ast_parse_object lib code =
      Inl (Exn TypeError ''compile() arg 1 must be a string, bytes or AST object'' [] None)"
    using assms(3) by (cases code) (simp_all add: ast_parse_object_def)
  then have "exec_code lib code fresh =
      Raised (Exn TypeError ''compile() arg 1 must be a string, bytes or AST object'' [] None)
        fresh"
    by (simp add: exec_code_def)
  then show ?thesis
    using assms(1,2)
    by (simp add: main_decoded format_exception_only_def exception_line_def fresh_def)
qed

theorem non_string_json_reported_as_exception_witness:
  "str_strip ''123'' \<noteq> [] \<and> json_loads sample_lib ''123'' = Inr (JInt 123) \<and>
   \<not> is_str (JInt 123) \<and>
   main sample_lib (Some ''123'') =
     Some \<lparr>returned = Inr 1, stdout = [],
           stderr = ''TypeError: compile() arg 1 must be a string, bytes or AST object''
             @ [newline]\<rparr>"
proof -
  have a: "str_strip ''123'' \<noteq> []"
    by (simp add: str_strip_empty_iff isspace_def)
  have b: "json_loads sample_lib ''123'' = Inr (JInt 123)"
    by (simp add: sample_lib_def sample_json_loads_def)
  have c: "\<not> is_str (JInt 123)"
    by simp
  show ?thesis
    using a b c non_string_json_reported_as_exception [OF a b c] by simp
qed

subsection \<open>The examples of the echo\<close>

text \<open>
  C7. For the source \<^verbatim>\<open>1 + 1\<close>, given as the JSON string \<^verbatim>\<open>"1 + 1"\<close>: the expression statement is
  taken off the body (the body that runs is empty) and becomes the echo target; standard
  output is \<^verbatim>\<open>2\<close> and a newline, and \<^verbatim>\<open>main\<close> returns 0.
\<close>

theorem bare_expression_echoed:
  assumes "json_loads lib (json_literal ''1 + 1'') = Inr (JStr ''1 + 1'')"
    and "ast_parse lib ''1 + 1'' = Inr [Expr (BinOp (Constant (IntV 1)) Add (Constant (IntV 1)))]"
  shows "split_program [Expr (BinOp (Constant (IntV 1)) Add (Constant (IntV 1)))] =
           Inr ([], Some (BinOp (Constant (IntV 1)) Add (Constant (IntV 1)))) \<and>
         main lib (Some (json_literal ''1 + 1'')) =
           Some \<lparr>returned = Inr 0, stdout = ''2'' @ [newline], stderr = []\<rparr>"
proof -
  have "str_int 2 = ''2''"
    by code_simp
  moreover have "within_digits 1" and "within_digits 2"
    by (simp_all add: within_digits_small)
  ultimately have "exec_code lib (JStr ''1 + 1'') fresh =
      Done () \<lparr>globals = [], out = ''2'' @ [newline]\<rparr>"
    using assms(2)
    by (simp add: exec_code_def ast_parse_object_def split_program_def exec_then_echo_def
        echo_def apply_binop_def print_def fresh_def checked_def)
  then show ?thesis
    using assms(1) by (simp add: main_decoded json_literal_not_blank split_program_def)
qed

theorem bare_expression_echoed_witness:
  "json_loads sample_lib (json_literal ''1 + 1'') = Inr (JStr ''1 + 1'') \<and>
   ast_parse sample_lib ''1 + 1'' =
     Inr [Expr (BinOp (Constant (IntV 1)) Add (Constant (IntV 1)))] \<and>
   main sample_lib (Some (json_literal ''1 + 1'')) =
     Some \<lparr>returned = Inr 0, stdout = ''2'' @ [newline], stderr = []\<rparr>"
proof -
  have a: "json_loads sample_lib (json_literal ''1 + 1'') = Inr (JStr ''1 + 1'')"
    by code_simp
  have b: "ast_parse sample_lib ''1 + 1'' =
      Inr [Expr (BinOp (Constant (IntV 1)) Add (Constant (IntV 1)))]"
    by code_simp
  show ?thesis
    using a b bare_expression_echoed [OF a b] by simp
qed

text \<open>
  C2. For the source \<^verbatim>\<open>x = 5\<close>, given as the JSON string \<^verbatim>\<open>"x = 5"\<close>: standard output is \<^verbatim>\<open>5\<close>
  and a newline, nothing is written to standard error, and \<^verbatim>\<open>main\<close> returns 0.
\<close>

theorem plain_assignment_echoed:
  assumes "json_loads lib (json_literal ''x = 5'') = Inr (JStr ''x = 5'')"
    and "ast_parse lib ''x = 5'' = Inr [Assign [''x''] (Constant (IntV 5))]"
  shows "main lib (Some (json_literal ''x = 5'')) =
           Some \<lparr>returned = Inr 0, stdout = ''5'' @ [newline], stderr = []\<rparr>"
proof -
  have "str_int 5 = ''5''"
    by code_simp
  moreover have "within_digits 5"
    by (simp add: within_digits_small)
  ultimately have "exec_code lib (JStr ''x = 5'') fresh =
      Done () \<lparr>globals = [(''x'', IntV 5)], out = ''5'' @ [newline]\<rparr>"
    using assms(2)
    by (simp add: exec_code_def ast_parse_object_def split_program_def exec_then_echo_def
        echo_def print_def fresh_def bind_name_def lookup_def checked_def
        reserved_def reserved_bound_def)
  then show ?thesis
    using assms(1) by (simp add: main_decoded json_literal_not_blank)
qed

theorem plain_assignment_echoed_witness:
  "json_loads sample_lib (json_literal ''x = 5'') = Inr (JStr ''x = 5'') \<and>
   ast_parse sample_lib ''x = 5'' = Inr [Assign [''x''] (Constant (IntV 5))] \<and>
   main sample_lib (Some (json_literal ''x = 5'')) =
     Some \<lparr>returned = Inr 0, stdout = ''5'' @ [newline], stderr = []\<rparr>"
proof -
  have a: "json_loads sample_lib (json_literal ''x = 5'') = Inr (JStr ''x = 5'')"
    by code_simp
  have b: "ast_parse sample_lib ''x = 5'' = Inr [Assign [''x''] (Constant (IntV 5))]"
    by code_simp
  show ?thesis
    using a b plain_assignment_echoed [OF a b] by simp
qed



subsection \<open>When nothing is echoed\<close>

text \<open>
  C8. When the echo target evaluates to \<^verbatim>\<open>None\<close>, no line is added for it: standard output is
  what the body and the evaluation of the target wrote themselves, and \<^verbatim>\<open>main\<close> returns 0.
  For \<^verbatim>\<open>print(1)\<close> that is \<^verbatim>\<open>1\<close> and a newline, written by the call.
\<close>

theorem none_value_not_echoed:
  assumes "str_strip raw \<noteq> []" and "json_loads lib raw = Inr code"
    and "ast_parse_object lib code = Inr body"
    and "split_program body = Inr (body', Some e)"
    and "exec body' fresh = Done () w1"
    and "eval e w1 = Done NoneV w2"
  shows "main lib (Some raw) = Some \<lparr>returned = Inr 0, stdout = out w2, stderr = []\<rparr>"
proof -
  have "exec_code lib code fresh = Done () w2"
    using assms(3-6) by (simp add: exec_code_parsed exec_then_echo_def echo_def)
  then show ?thesis
    using assms(1,2) by (simp add: main_decoded)
qed

theorem none_value_not_echoed_witness:
  "str_strip (json_literal ''print(1)'') \<noteq> [] \<and>
   json_loads sample_lib (json_literal ''print(1)'') = Inr (JStr ''print(1)'') \<and>
   ast_parse_object sample_lib (JStr ''print(1)'') =
     Inr [Expr (Call (Name ''print'') [Constant (IntV 1)])] \<and>
   split_program [Expr (Call (Name ''print'') [Constant (IntV 1)])] =
     Inr ([], Some (Call (Name ''print'') [Constant (IntV 1)])) \<and>
   exec [] fresh = Done () fresh \<and>
   eval (Call (Name ''print'') [Constant (IntV 1)]) fresh =
     Done NoneV \<lparr>globals = [], out = ''1'' @ [newline]\<rparr> \<and>
   main sample_lib (Some (json_literal ''print(1)'')) =
     Some \<lparr>returned = Inr 0, stdout = ''1'' @ [newline], stderr = []\<rparr>"
proof -
  have a: "str_strip (json_literal ''print(1)'') \<noteq> []"
    by (rule json_literal_not_blank)
  have b: "json_loads sample_lib (json_literal ''print(1)'') = Inr (JStr ''print(1)'')"
    by code_simp
  have c: "ast_parse_object sample_lib (JStr ''print(1)'') =
      Inr [Expr (Call (Name ''print'') [Constant (IntV 1)])]"
    by code_simp
  have d: "split_program [Expr (Call (Name ''print'') [Constant (IntV 1)])] =
      Inr ([], Some (Call (Name ''print'') [Constant (IntV 1)]))"
    by (simp add: split_program_def)
  have e: "exec [] fresh = Done () fresh"
    by simp
  have "str_int 1 = ''1''"
    by code_simp
  moreover have "within_digits 1"
    by (simp add: within_digits_small)
  ultimately have f: "eval (Call (Name ''print'') [Constant (IntV 1)]) fresh =
      Done NoneV \<lparr>globals = [], out = ''1'' @ [newline]\<rparr>"
    by (simp add: lookup_def builtins_def fresh_def print_def checked_def
        reserved_def reserved_bound_def)
  show ?thesis
    using a b c d e f none_value_not_echoed [OF a b c d e f] by simp
qed

text \<open>
  C9. When the last statement is of none of the four kinds (here a loop, \<^verbatim>\<open>pass\<close> or
  \<^verbatim>\<open>raise\<close>), there is no echo target, \<^verbatim>\<open>exec_code\<close> does what executing the whole body does and
  nothing more, and \<^verbatim>\<open>main\<close> returns 0 with the body's own output when the body raises
  nothing. For \<^verbatim>\<open>for i in range(3): pass\<close> standard output is empty and \<^verbatim>\<open>main\<close> returns 0.
\<close>

theorem other_statement_no_echo:
  assumes "str_strip raw \<noteq> []" and "json_loads lib raw = Inr code"
    and "ast_parse_object lib code = Inr body"
    and "body \<noteq> []" and "other_kind (last body)"
  shows "split_program body = Inr (body, None) \<and>
         exec_code lib code w = exec body w \<and>
         main lib (Some raw) =
           (case exec body fresh of
              Done _ w1 \<Rightarrow> Some \<lparr>returned = Inr 0, stdout = out w1, stderr = []\<rparr>
            | Raised exc w1 \<Rightarrow>
                if is_Exception (exn_class exc)
                then Some \<lparr>returned = Inr 1, stdout = out w1,
                           stderr = str_join [newline] (format_exception_only exc)\<rparr>
                else Some \<lparr>returned = Inl exc, stdout = out w1, stderr = []\<rparr>
            | Beyond \<Rightarrow> None)"
proof -
  have s: "split_program body = Inr (body, None)"
    using assms(4,5) by (rule split_program_other)
  have x: "exec_code lib code w = exec body w" for w
    using assms(3) s
    by (simp add: exec_code_parsed exec_then_echo_def echo_def split: outcome.splits)
  show ?thesis
    using s x assms(1,2) by (simp add: main_decoded)
qed

theorem other_statement_no_echo_witness:
  "str_strip (json_literal ''for i in range(3): pass'') \<noteq> [] \<and>
   json_loads sample_lib (json_literal ''for i in range(3): pass'') =
     Inr (JStr ''for i in range(3): pass'') \<and>
   ast_parse_object sample_lib (JStr ''for i in range(3): pass'') =
     Inr [For ''i'' (Call (Name ''range'') [Constant (IntV 3)]) [Pass]] \<and>
   other_kind (last [For ''i'' (Call (Name ''range'') [Constant (IntV 3)]) [Pass]]) \<and>
   split_program [For ''i'' (Call (Name ''range'') [Constant (IntV 3)]) [Pass]] =
     Inr ([For ''i'' (Call (Name ''range'') [Constant (IntV 3)]) [Pass]], None) \<and>
   main sample_lib (Some (json_literal ''for i in range(3): pass'')) =
     Some \<lparr>returned = Inr 0, stdout = [], stderr = []\<rparr>"
proof -
  have a: "str_strip (json_literal ''for i in range(3): pass'') \<noteq> []"
    by (rule json_literal_not_blank)
  have b: "json_loads sample_lib (json_literal ''for i in range(3): pass'') =
      Inr (JStr ''for i in range(3): pass'')"
    by code_simp
  have c: "ast_parse_object sample_lib (JStr ''for i in range(3): pass'') =
      Inr [For ''i'' (Call (Name ''range'') [Constant (IntV 3)]) [Pass]]"
    by code_simp
  have d: "[For ''i'' (Call (Name ''range'') [Constant (IntV 3)]) [Pass]] \<noteq> []"
    by simp
  have e: "other_kind (last [For ''i'' (Call (Name ''range'') [Constant (IntV 3)]) [Pass]])"
    by simp
  have f: "exec [For ''i'' (Call (Name ''range'') [Constant (IntV 3)]) [Pass]] fresh =
      Done () \<lparr>globals = [(''i'', IntV 2)], out = []\<rparr>"
    by code_simp
  show ?thesis
    using a b c e other_statement_no_echo [OF a b c d e, of fresh] unfolding f by simp
qed

subsection \<open>What happens to the last statement\<close>

text \<open>
  C1, as the code has it. Only a last statement that is a bare expression is taken off the
  body before the body runs, and is the echo target. A last statement that is a plain
  assignment stays in the body, like an annotated or an augmented assignment: the whole body
  runs, and then the target (of a plain assignment, the first one) is evaluated for the echo.
\<close>

theorem last_statement_kept_unless_expression:
  assumes "ast_parse_object lib code = Inr body" and "body \<noteq> []"
  shows "(last body = Expr e \<longrightarrow>
            split_program body = Inr (butlast body, Some e) \<and>
            exec_code lib code w = exec_then_echo (butlast body) (Some e) w) \<and>
         (last body = Assign (t1 # ts) v1 \<longrightarrow>
            split_program body = Inr (body, Some (Name t1)) \<and>
            exec_code lib code w = exec_then_echo body (Some (Name t1)) w) \<and>
         (last body = AnnAssign t2 ann v2 \<longrightarrow>
            split_program body = Inr (body, Some (Name t2)) \<and>
            exec_code lib code w = exec_then_echo body (Some (Name t2)) w) \<and>
         (last body = AugAssign t3 op v3 \<longrightarrow>
            split_program body = Inr (body, Some (Name t3)) \<and>
            exec_code lib code w = exec_then_echo body (Some (Name t3)) w)"
  using assms by (simp add: exec_code_parsed split_program_def)

theorem last_statement_kept_unless_expression_witness:
  "ast_parse_object sample_lib (JStr ''1 + 1'') =
     Inr [Expr (BinOp (Constant (IntV 1)) Add (Constant (IntV 1)))] \<and>
   exec_code sample_lib (JStr ''1 + 1'') fresh =
     exec_then_echo [] (Some (BinOp (Constant (IntV 1)) Add (Constant (IntV 1)))) fresh \<and>
   ast_parse_object sample_lib (JStr ''x = 5'') = Inr [Assign [''x''] (Constant (IntV 5))] \<and>
   exec_code sample_lib (JStr ''x = 5'') fresh =
     exec_then_echo [Assign [''x''] (Constant (IntV 5))] (Some (Name ''x'')) fresh \<and>
   ast_parse_object sample_lib (JStr ''x: int = 5'') =
     Inr [AnnAssign ''x'' (Name ''int'') (Some (Constant (IntV 5)))] \<and>
   exec_code sample_lib (JStr ''x: int = 5'') fresh =
     exec_then_echo [AnnAssign ''x'' (Name ''int'') (Some (Constant (IntV 5)))]
       (Some (Name ''x'')) fresh \<and>
   ast_parse_object sample_lib (JStr ''x = 5; x += 1'') =
     Inr [Assign [''x''] (Constant (IntV 5)), AugAssign ''x'' Add (Constant (IntV 1))] \<and>
   exec_code sample_lib (JStr ''x = 5; x += 1'') fresh =
     exec_then_echo [Assign [''x''] (Constant (IntV 5)), AugAssign ''x'' Add (Constant (IntV 1))]
       (Some (Name ''x'')) fresh"
proof -
  have a: "ast_parse_object sample_lib (JStr ''1 + 1'') =
      Inr [Expr (BinOp (Constant (IntV 1)) Add (Constant (IntV 1)))]"
    by code_simp
  have b: "ast_parse_object sample_lib (JStr ''x = 5'') = Inr [Assign [''x''] (Constant (IntV 5))]"
    by code_simp
  have c: "ast_parse_object sample_lib (JStr ''x: int = 5'') =
      Inr [AnnAssign ''x'' (Name ''int'') (Some (Constant (IntV 5)))]"
    by code_simp
  have d: "ast_parse_object sample_lib (JStr ''x = 5; x += 1'') =
      Inr [Assign [''x''] (Constant (IntV 5)), AugAssign ''x'' Add (Constant (IntV 1))]"
    by code_simp
  show ?thesis
    using a b c d
      last_statement_kept_unless_expression [OF a, of "BinOp (Constant (IntV 1)) Add (Constant (IntV 1))" fresh]
      last_statement_kept_unless_expression [OF b, of _ fresh "''x''" "[]" "Constant (IntV 5)"]
      last_statement_kept_unless_expression [OF c, of _ fresh _ _ _ "''x''" "Name ''int''" "Some (Constant (IntV 5))"]
      last_statement_kept_unless_expression [OF d, of _ fresh _ _ _ _ _ _ "''x''" Add "Constant (IntV 1)"]
    by simp
qed

text \<open>
  C1, as stated, has the plain assignment removed from the body. For \<^verbatim>\<open>x = 5\<close> the body that
  runs still holds the assignment; it is not the empty body.
\<close>

theorem plain_assignment_removed_counterexample:
  "split_program [Assign [''x''] (Constant (IntV 5))] =
     Inr ([Assign [''x''] (Constant (IntV 5))], Some (Name ''x'')) \<and>
   split_program [Assign [''x''] (Constant (IntV 5))] \<noteq> Inr ([], Some (Name ''x''))"
  by (simp add: split_program_def)

subsection \<open>Exceptions\<close>

text \<open>
  C4, as the code has it. When the decoded source makes \<^verbatim>\<open>exec_code\<close> raise an exception of a
  class under \<^verbatim>\<open>Exception\<close> (while parsing, executing or evaluating the echo target), \<^verbatim>\<open>main\<close>
  returns 1, standard output keeps what was written before the exception, and standard
  error is the lines of \<^verbatim>\<open>format_exception_only\<close> for that exception joined by newlines:
  the lines that locate it, if it has any, and the line \<^verbatim>\<open>Kind: message\<close>; the cause of the
  exception is not among them. When there is the one line only, standard error is exactly
  that line, with its own newline and no other.
\<close>

theorem exception_reported:
  assumes "str_strip raw \<noteq> []" and "json_loads lib raw = Inr code"
    and "exec_code lib code fresh = Raised exc w"
    and "is_Exception (exn_class exc)"
  shows "main lib (Some raw) =
           Some \<lparr>returned = Inr 1, stdout = out w,
                 stderr = str_join [newline] (format_exception_only exc)\<rparr> \<and>
         format_exception_only exc = location exc @ [exception_line exc] \<and>
         (location exc = [] \<longrightarrow>
            main lib (Some raw) =
              Some \<lparr>returned = Inr 1, stdout = out w, stderr = exception_line exc\<rparr>)"
  using assms by (simp add: main_decoded format_exception_only_def)

theorem exception_reported_witness:
  "str_strip (json_literal ''1/0'') \<noteq> [] \<and>
   json_loads sample_lib (json_literal ''1/0'') = Inr (JStr ''1/0'') \<and>
   exec_code sample_lib (JStr ''1/0'') fresh =
     Raised (Exn ZeroDivisionError ''division by zero'' [] None) fresh \<and>
   is_Exception ZeroDivisionError \<and>
   main sample_lib (Some (json_literal ''1/0'')) =
     Some \<lparr>returned = Inr 1, stdout = [],
           stderr = ''ZeroDivisionError: division by zero'' @ [newline]\<rparr> \<and>
   json_loads sample_lib (json_literal ''1 +'') = Inr (JStr ''1 +'') \<and>
   main sample_lib (Some (json_literal ''1 +'')) =
     Some \<lparr>returned = Inr 1, stdout = [],
           stderr =
             ''  File '' @ [dquote] @ ''<unknown>'' @ [dquote] @ '', line 1'' @ [newline] @
             [newline] @ ''    1 +'' @ [newline] @
             [newline] @ ''       ^'' @ [newline] @
             [newline] @ ''SyntaxError: invalid syntax'' @ [newline]\<rparr>"
proof -
  have a: "str_strip (json_literal ''1/0'') \<noteq> []"
    by (rule json_literal_not_blank)
  have b: "json_loads sample_lib (json_literal ''1/0'') = Inr (JStr ''1/0'')"
    by code_simp
  have c: "exec_code sample_lib (JStr ''1/0'') fresh =
      Raised (Exn ZeroDivisionError ''division by zero'' [] None) fresh"
    by code_simp
  have d: "is_Exception (exn_class (Exn ZeroDivisionError ''division by zero'' [] None))"
    by simp
  have a': "str_strip (json_literal ''1 +'') \<noteq> []"
    by (rule json_literal_not_blank)
  have b': "json_loads sample_lib (json_literal ''1 +'') = Inr (JStr ''1 +'')"
    by code_simp
  have c': "exec_code sample_lib (JStr ''1 +'') fresh =
      Raised (Exn SyntaxError ''invalid syntax''
         [''  File '' @ [dquote] @ ''<unknown>'' @ [dquote] @ '', line 1'' @ [newline],
          ''    1 +'' @ [newline],
          ''       ^'' @ [newline]] None) fresh"
    by code_simp
  have d': "is_Exception (exn_class (Exn SyntaxError ''invalid syntax''
         [''  File '' @ [dquote] @ ''<unknown>'' @ [dquote] @ '', line 1'' @ [newline],
          ''    1 +'' @ [newline],
          ''       ^'' @ [newline]] None))"
    by simp
  show ?thesis
    using a b c d exception_reported [OF a b c d] b' exception_reported [OF a' b' c' d']
    by (simp add: exception_line_def format_exception_only_def fresh_def)
qed

text \<open>
  C4, as stated, has the text of the causal chain on standard error. For
  \<^verbatim>\<open>raise ValueError(1) from TypeError(2)\<close> the exception raised has the \<^verbatim>\<open>TypeError\<close> as its cause,
  and standard error is the line of the \<^verbatim>\<open>ValueError\<close> alone.
\<close>

theorem causal_chain_counterexample:
  "exec_code sample_lib (JStr ''raise ValueError(1) from TypeError(2)'') fresh =
     Raised (Exn ValueError ''1'' [] (Some (Exn TypeError ''2'' [] None))) fresh \<and>
   main sample_lib (Some (json_literal ''raise ValueError(1) from TypeError(2)'')) =
     Some \<lparr>returned = Inr 1, stdout = [], stderr = ''ValueError: 1'' @ [newline]\<rparr>"
  by code_simp

text \<open>
  More facts about the report. Joining with a newline lines that each end in one puts
  an empty line between them, so the text of a located syntax error is not the
  concatenation of its formatted lines. An exception outside \<^verbatim>\<open>Exception\<close> is not
  caught: it leaves \<^verbatim>\<open>main\<close>, which writes nothing to standard error. And a syntax error
  raised without a message is reported with \<^verbatim>\<open><no detail available>\<close>.
\<close>

lemma str_join_length:
  "length (str_join sep xs) = length (concat xs) + length sep * (length xs - 1)"
  by (induction sep xs rule: str_join.induct) simp_all

lemma located_exception_lines_spaced:
  assumes "location exc \<noteq> []"
  shows "str_join [newline] (format_exception_only exc) \<noteq> concat (format_exception_only exc)"
proof -
  have "length (format_exception_only exc) - 1 = length (location exc)"
    by (simp add: format_exception_only_def)
  then have "length (str_join [newline] (format_exception_only exc)) =
      length (concat (format_exception_only exc)) + length (location exc)"
    by (simp add: str_join_length)
  moreover have "0 < length (location exc)"
    using assms by simp
  ultimately show ?thesis
    by (metis less_irrefl less_add_same_cancel1)
qed

lemma base_exception_leaves_main:
  "main sample_lib (Some (json_literal ''raise SystemExit'')) =
     Some \<lparr>returned = Inl (Exn SystemExit [] [] None), stdout = [], stderr = []\<rparr>"
  by code_simp

lemma syntax_error_without_message:
  "main sample_lib (Some (json_literal ''raise SyntaxError'')) =
     Some \<lparr>returned = Inr 1, stdout = [],
           stderr = ''SyntaxError: <no detail available>'' @ [newline]\<rparr>"
  by code_simp

end
